theory Spec2Isabelle
  imports Main
begin

unbundle bit_operations_syntax

section \<open>Exceptions\<close>

text \<open>
  The exceptions of \<^verbatim>\<open>pyatv.exceptions\<close> that the modelled functions raise themselves,
  each with its message, and \<open>OtherError\<close> for any exception raised by a collaborator
  (a handshake, network or parse failure), with its \<^verbatim>\<open>str()\<close>.
  A function that may raise returns \<open>exn + 'a\<close>, with \<open>Inl\<close> for the raise.
\<close>

datatype exn =
    PairingError string
  | NotSupportedError string
  | OtherError string

fun exn_str :: "exn \<Rightarrow> string" where
  "exn_str (PairingError m) = m"
| "exn_str (NotSupportedError m) = m"
| "exn_str (OtherError m) = m"

section \<open>Credentials (\<^verbatim>\<open>pyatv.auth.hap_pairing\<close>)\<close>

text \<open>
  Modelled from the spec: \<^verbatim>\<open>AuthenticationType\<close> and \<^verbatim>\<open>HapCredentials\<close> are declared in
  \<^verbatim>\<open>pyatv/auth/hap_pairing.py\<close>, which is not among the sources. The enumeration has
  the four tags the spec lists; a credentials value carries its scheme tag and the key
  material of the spec's data model.
\<close>

datatype AuthenticationType = Null | Legacy | HAP | Transient

fun AuthenticationType_str :: "AuthenticationType \<Rightarrow> string" where
  "AuthenticationType_str Null = ''AuthenticationType.Null''"
| "AuthenticationType_str Legacy = ''AuthenticationType.Legacy''"
| "AuthenticationType_str HAP = ''AuthenticationType.HAP''"
| "AuthenticationType_str Transient = ''AuthenticationType.Transient''"

record HapCredentials =
  type :: AuthenticationType
  cred_identifier :: "string option"
  long_term_public_key :: string
  long_term_secret_key :: "string option"
  extra :: string

text \<open>
  Modelled from the spec: the two sentinels \<^verbatim>\<open>NO_CREDENTIALS\<close> and
  \<^verbatim>\<open>TRANSIENT_CREDENTIALS\<close> of \<^verbatim>\<open>pyatv/auth/hap_pairing.py\<close>: "no credentials"
  (no authentication performed) and "transient credentials" (no persisted identity).
\<close>

definition NO_CREDENTIALS :: HapCredentials where
  "NO_CREDENTIALS =
     \<lparr>type = Null, cred_identifier = None, long_term_public_key = [],
      long_term_secret_key = None, extra = []\<rparr>"

definition TRANSIENT_CREDENTIALS :: HapCredentials where
  "TRANSIENT_CREDENTIALS =
     \<lparr>type = Transient, cred_identifier = None, long_term_public_key = [],
      long_term_secret_key = None, extra = []\<rparr>"

section \<open>Connections and SRP engines\<close>

text \<open>
  Modelled from the spec: \<^verbatim>\<open>HttpConnection\<close> (of \<^verbatim>\<open>pyatv.support.http\<close>) and \<^verbatim>\<open>HAPSession\<close>
  (of \<^verbatim>\<open>pyatv.auth.hap_session\<close>) are not among the sources. A connection has two
  swappable hooks, \<^verbatim>\<open>receive_processor\<close> and \<^verbatim>\<open>send_processor\<close>. Before verification both are
  the identity pass-through; the encryption step installs the bound methods
  \<^verbatim>\<open>session.decrypt\<close> and \<^verbatim>\<open>session.encrypt\<close> of an enabled session, which is determined
  by its two keys.
\<close>

record HAPSession =
  session_output_key :: string
  session_input_key :: string

datatype processor =
    pass_through
  | session_decrypt HAPSession
  | session_encrypt HAPSession

record HttpConnection =
  receive_processor :: processor
  send_processor :: processor

text \<open>
  Connections are objects shared by reference: a procedure keeps the reference it was
  built with, and the heap maps each reference to the connection's current hooks.
\<close>

type_synonym conn_ref = nat
type_synonym heap = "conn_ref \<Rightarrow> HttpConnection"

text \<open>
  The two SRP engines, as the source constructs them: \<^verbatim>\<open>LegacySRPAuthHandler(credentials)\<close>
  is seeded with credentials, \<^verbatim>\<open>SRPAuthHandler()\<close> is not. Their classes are not among
  the sources; an engine is its constructor, its argument and whether \<^verbatim>\<open>initialize()\<close>
  has been called on it.
\<close>

datatype srp_handler =
    LegacySRPAuthHandler HapCredentials bool
  | SRPAuthHandler bool

fun initialize :: "srp_handler \<Rightarrow> srp_handler" where
  "initialize (LegacySRPAuthHandler c _) = LegacySRPAuthHandler c True"
| "initialize (SRPAuthHandler _) = SRPAuthHandler True"

section \<open>Procedure selection (\<^verbatim>\<open>pyatv/protocols/airplay/auth/__init__.py\<close>)\<close>

definition CONTROL_SALT :: string where
  "CONTROL_SALT = ''Control-Salt''"

definition CONTROL_OUTPUT_INFO :: string where
  "CONTROL_OUTPUT_INFO = ''Control-Write-Encryption-Key''"

definition CONTROL_INPUT_INFO :: string where
  "CONTROL_INPUT_INFO = ''Control-Read-Encryption-Key''"

text \<open>
  A procedure object is the class the source instantiates and the arguments it passes.
\<close>

datatype PairSetupProcedure =
    AirPlayLegacyPairSetupProcedure conn_ref srp_handler
  | AirPlayHapPairSetupProcedure conn_ref srp_handler

datatype PairVerifyProcedure =
    NullPairVerifyProcedure
  | AirPlayLegacyPairVerifyProcedure conn_ref srp_handler
  | AirPlayHapPairVerifyProcedure conn_ref srp_handler HapCredentials
  | AirPlayHapTransientPairVerifyProcedure conn_ref srp_handler

text \<open>
  The collaborators that are not among the sources are parameters of the model. \<open>'w\<close> is
  the state of everything they act on (the device, the network, the SRP exchange).
  \<^item> \<open>new_credentials\<close>: the freshly generated credentials of \<^verbatim>\<open>airplay.srp.new_credentials()\<close>;
  \<^item> \<open>parse_credentials\<close>: the credential codec, which may raise;
  \<^item> \<open>credentials_str\<close>: \<^verbatim>\<open>str()\<close> of a credentials value, its token;
  \<^item> \<open>ft_parse\<close>, \<open>SupportsSystemPairing\<close>, \<open>SupportsCoreUtilsPairingAndEncryption\<close>:
     \<^verbatim>\<open>features.parse\<close> and the two \<^verbatim>\<open>AirPlayFlags\<close> bits, a flag set being its integer value;
  \<^item> \<open>proc_verify_credentials\<close>, \<open>proc_encryption_keys\<close>: the two operations of the
     Legacy, HAP and transient Pair-Verify procedures;
  \<^item> \<open>start_pairing\<close>, \<open>finish_pairing\<close>, \<open>mrp_verify_credentials\<close>: the operations of
     \<^verbatim>\<open>MrpPairSetupProcedure\<close> and \<^verbatim>\<open>MrpPairVerifyProcedure\<close>.
\<close>

record 'w env =
  new_credentials :: HapCredentials
  parse_credentials :: "string \<Rightarrow> exn + HapCredentials"
  credentials_str :: "HapCredentials \<Rightarrow> string"
  ft_parse :: "string \<Rightarrow> exn + nat"
  SupportsSystemPairing :: nat
  SupportsCoreUtilsPairingAndEncryption :: nat
  proc_verify_credentials :: "PairVerifyProcedure \<Rightarrow> 'w \<Rightarrow> (exn + bool) \<times> 'w"
  proc_encryption_keys ::
    "PairVerifyProcedure \<Rightarrow> 'w \<Rightarrow> string \<Rightarrow> string \<Rightarrow> string \<Rightarrow> exn + string \<times> string"
  start_pairing :: "'w \<Rightarrow> (exn + unit) \<times> 'w"
  finish_pairing :: "string \<Rightarrow> string \<Rightarrow> 'w \<Rightarrow> (exn + HapCredentials) \<times> 'w"
  mrp_verify_credentials :: "HapCredentials \<Rightarrow> 'w \<Rightarrow> (exn + bool) \<times> 'w"

text \<open>\<^verbatim>\<open>NullPairVerifyProcedure\<close>: its two methods, as written in the source.\<close>

definition Null_verify_credentials :: "'w \<Rightarrow> (exn + bool) \<times> 'w" where
  "Null_verify_credentials w = (Inr False, w)"

definition Null_encryption_keys :: "string \<Rightarrow> string \<Rightarrow> string \<Rightarrow> exn + string \<times> string" where
  "Null_encryption_keys salt output_info input_key =
     Inl (NotSupportedError ''encryption keys not supported by null implementation'')"

text \<open>Method dispatch on the procedure object: \<^verbatim>\<open>verifier.verify_credentials()\<close> and
  \<^verbatim>\<open>verifier.encryption_keys(...)\<close>.\<close>

fun verify_credentials ::
  "'w env \<Rightarrow> PairVerifyProcedure \<Rightarrow> 'w \<Rightarrow> (exn + bool) \<times> 'w" where
  "verify_credentials d NullPairVerifyProcedure w = Null_verify_credentials w"
| "verify_credentials d verifier w = proc_verify_credentials d verifier w"

fun encryption_keys ::
  "'w env \<Rightarrow> PairVerifyProcedure \<Rightarrow> 'w \<Rightarrow> string \<Rightarrow> string \<Rightarrow> string
     \<Rightarrow> exn + string \<times> string" where
  "encryption_keys d NullPairVerifyProcedure w salt output_info input_key =
     Null_encryption_keys salt output_info input_key"
| "encryption_keys d verifier w salt output_info input_key =
     proc_encryption_keys d verifier w salt output_info input_key"

definition pair_setup ::
  "'w env \<Rightarrow> AuthenticationType \<Rightarrow> conn_ref \<Rightarrow> exn + PairSetupProcedure" where
  "pair_setup d auth_type connection =
     (if auth_type = Legacy then
        Inr (AirPlayLegacyPairSetupProcedure connection
               (initialize (LegacySRPAuthHandler (new_credentials d) False)))
      else if auth_type = HAP then
        Inr (AirPlayHapPairSetupProcedure connection (initialize (SRPAuthHandler False)))
      else
        Inl (NotSupportedError
               (''authentication type '' @ AuthenticationType_str auth_type
                  @ '' does not support Pair-Setup'')))"

definition pair_verify :: "HapCredentials \<Rightarrow> conn_ref \<Rightarrow> PairVerifyProcedure" where
  "pair_verify credentials connection =
     (if type credentials = Null then NullPairVerifyProcedure
      else if type credentials = Legacy then
        AirPlayLegacyPairVerifyProcedure connection
          (initialize (LegacySRPAuthHandler credentials False))
      else if type credentials = HAP then
        AirPlayHapPairVerifyProcedure connection (initialize (SRPAuthHandler False)) credentials
      else
        AirPlayHapTransientPairVerifyProcedure connection (initialize (SRPAuthHandler False)))"

text \<open>\<^verbatim>\<open>HAPSession()\<close> followed by \<^verbatim>\<open>session.enable(output_key, input_key)\<close>.\<close>

definition enable :: "string \<Rightarrow> string \<Rightarrow> HAPSession" where
  "enable out_key in_key = \<lparr>session_output_key = out_key, session_input_key = in_key\<rparr>"

text \<open>
  \<^verbatim>\<open>verify_connection\<close>: an exception of \<^verbatim>\<open>verify_credentials\<close> or \<^verbatim>\<open>encryption_keys\<close>
  leaves the function before any hook is assigned. The two assignments to the connection
  object are the update of the heap at the connection's reference.
\<close>

definition verify_connection ::
  "'w env \<Rightarrow> HapCredentials \<Rightarrow> conn_ref \<Rightarrow> heap \<Rightarrow> 'w
     \<Rightarrow> (exn + PairVerifyProcedure) \<times> heap \<times> 'w" where
  "verify_connection d creds connection h w =
     (let verifier = pair_verify creds connection in
      case verify_credentials d verifier w of
        (Inl ex, w') \<Rightarrow> (Inl ex, h, w')
      | (Inr has_encryption_keys, w') \<Rightarrow>
          if has_encryption_keys then
            (case encryption_keys d verifier w' CONTROL_SALT CONTROL_OUTPUT_INFO
                    CONTROL_INPUT_INFO of
               Inl ex \<Rightarrow> (Inl ex, h, w')
             | Inr (out_key, in_key) \<Rightarrow>
                 (let session = enable out_key in_key in
                  (Inr verifier,
                   h(connection := (h connection)
                       \<lparr>receive_processor := session_decrypt session,
                        send_processor := session_encrypt session\<rparr>),
                   w')))
          else (Inr verifier, h, w'))"

section \<open>Configuration (\<^verbatim>\<open>pyatv/conf.py\<close>)\<close>

text \<open>
  \<^verbatim>\<open>Protocol\<close> (of \<^verbatim>\<open>pyatv.const\<close>) has the five members that \<^verbatim>\<open>conf.py\<close> names. A service
  has the attributes its constructors in \<^verbatim>\<open>conf.py\<close> set: identifier, protocol, port,
  properties, credentials and (RAOP only) password; \<open>None\<close> is Python's \<^verbatim>\<open>None\<close>.
\<close>

datatype Protocol = DMAP | MRP | AirPlay | Companion | RAOP

record BaseService =
  service_identifier :: "string option"
  protocol :: Protocol
  port :: int
  properties :: "string \<rightharpoonup> string"
  credentials :: "string option"
  password :: "string option"

text \<open>
  The configuration object. \<open>services\<close> is the dictionary \<^verbatim>\<open>_services\<close>, from protocol to
  service; \<open>device_properties\<close> is the attribute \<^verbatim>\<open>properties\<close>.
\<close>

record AppleTV =
  address :: nat
  name :: string
  deep_sleep :: bool
  services :: "Protocol \<rightharpoonup> BaseService"
  device_info :: "string \<rightharpoonup> string"
  device_properties :: "string \<rightharpoonup> (string \<rightharpoonup> string)"

definition get_service :: "AppleTV \<Rightarrow> Protocol \<Rightarrow> BaseService option" where
  "get_service self prot = services self prot"

text \<open>
  \<^verbatim>\<open>set_credentials\<close> returns its boolean together with the updated configuration. The
  service is an object held by the dictionary, so assigning its attribute changes the
  dictionary's entry. \<^verbatim>\<open>if service:\<close> tests a service object, which is true unless it
  is \<^verbatim>\<open>None\<close>.
\<close>

definition set_credentials :: "AppleTV \<Rightarrow> Protocol \<Rightarrow> string \<Rightarrow> bool \<times> AppleTV" where
  "set_credentials self prot creds =
     (case get_service self prot of
        Some service \<Rightarrow>
          (True, self\<lparr>services := (services self)(prot \<mapsto> service\<lparr>credentials := Some creds\<rparr>)\<rparr>)
      | None \<Rightarrow> (False, self))"

section \<open>Credential extraction\<close>

text \<open>\<^verbatim>\<open>flag in features\<close> on an integer flag set: every bit of the flag is set.\<close>

definition flag_in :: "nat \<Rightarrow> nat \<Rightarrow> bool" where
  "flag_in flag features = (flag AND features = flag)"

definition extract_credentials :: "'w env \<Rightarrow> BaseService \<Rightarrow> exn + HapCredentials" where
  "extract_credentials d service =
     (case credentials service of
        Some c \<Rightarrow> parse_credentials d c
      | None \<Rightarrow>
          (case ft_parse d (case properties service ''features'' of
                              None \<Rightarrow> ''0x0'' | Some v \<Rightarrow> v) of
             Inl ex \<Rightarrow> Inl ex
           | Inr features \<Rightarrow>
               if flag_in (SupportsSystemPairing d) features
                  \<or> flag_in (SupportsCoreUtilsPairingAndEncryption d) features
               then Inr TRANSIENT_CREDENTIALS
               else Inr NO_CREDENTIALS))"

section \<open>Interactive pairing (\<^verbatim>\<open>pyatv/protocols/mrp/pairing.py\<close>)\<close>

subsection \<open>Python's \<^verbatim>\<open>str\<close> and \<^verbatim>\<open>str.zfill\<close>\<close>

text \<open>The values a caller passes as PIN: an integer or a string.\<close>

datatype py_value = PyInt int | PyStr string

definition digit_char :: "nat \<Rightarrow> char" where
  "digit_char k = ''0123456789'' ! k"

fun nat_str :: "nat \<Rightarrow> string" where
  "nat_str n = (if n < 10 then [digit_char n] else nat_str (n div 10) @ [digit_char (n mod 10)])"

definition int_str :: "int \<Rightarrow> string" where
  "int_str i = (if i < 0 then CHR ''-'' # nat_str (nat (- i)) else nat_str (nat i))"

fun str :: "py_value \<Rightarrow> string" where
  "str (PyInt i) = int_str i"
| "str (PyStr s) = s"

text \<open>
  \<^verbatim>\<open>s.zfill(width)\<close>: a string of at least \<open>width\<close> characters is returned as it is; a
  shorter one is filled with zeros on the left, after a leading sign if it has one.
\<close>

definition zfill :: "nat \<Rightarrow> string \<Rightarrow> string" where
  "zfill width s =
     (if width \<le> length s then s
      else case s of
             [] \<Rightarrow> replicate width CHR ''0''
           | c # rest \<Rightarrow>
               if c = CHR ''+'' \<or> c = CHR ''-''
               then c # replicate (width - length s) CHR ''0'' @ rest
               else replicate (width - length s) CHR ''0'' @ s)"

subsection \<open>The handler\<close>

text \<open>
  The handler's own attributes: the service it pairs, \<^verbatim>\<open>pin_code\<close> and \<^verbatim>\<open>_has_paired\<close>.
  Its connection, SRP engine, protocol and pairing procedure belong to the collaborators'
  state \<open>'w\<close>; they do not touch the three attributes.
\<close>

record MrpPairingHandler =
  service :: BaseService
  pin_code :: "string option"
  has_paired :: bool

definition MrpPairingHandler_init :: "BaseService \<Rightarrow> MrpPairingHandler" where
  "MrpPairingHandler_init svc = \<lparr>service = svc, pin_code = None, has_paired = False\<rparr>"

text \<open>
  Modelled from the spec: \<^verbatim>\<open>error_handler\<close> of \<^verbatim>\<open>pyatv.support\<close> is not among the sources.
  It calls the function and wraps any failure into the given pairing-domain error,
  built from the failure's message.
\<close>

definition error_handler ::
  "('w \<Rightarrow> (exn + 'a) \<times> 'w) \<Rightarrow> (string \<Rightarrow> exn) \<Rightarrow> 'w \<Rightarrow> (exn + 'a) \<times> 'w" where
  "error_handler func fallback w =
     (case func w of
        (Inl ex, w') \<Rightarrow> (Inl (fallback (exn_str ex)), w')
      | (Inr v, w') \<Rightarrow> (Inr v, w'))"

definition begin_pairing :: "'w env \<Rightarrow> MrpPairingHandler \<Rightarrow> 'w \<Rightarrow> (exn + unit) \<times> 'w" where
  "begin_pairing d self w = error_handler (start_pairing d) PairingError w"

definition pin :: "py_value \<Rightarrow> MrpPairingHandler \<Rightarrow> MrpPairingHandler" where
  "pin v self = self\<lparr>pin_code := Some (zfill 4 (str v))\<rparr>"

text \<open>
  \<^verbatim>\<open>finish\<close>. \<^verbatim>\<open>not self.pin_code\<close> holds for \<^verbatim>\<open>None\<close> and for the empty string. Every raise
  leaves before the two assignments at the end, so the handler is returned as it was.
\<close>

definition finish ::
  "'w env \<Rightarrow> MrpPairingHandler \<Rightarrow> 'w \<Rightarrow> (exn + unit) \<times> MrpPairingHandler \<times> 'w" where
  "finish d self w =
     (case pin_code self of
        None \<Rightarrow> (Inl (PairingError ''no pin given''), self, w)
      | Some p \<Rightarrow>
          if p = [] then (Inl (PairingError ''no pin given''), self, w)
          else
            (case error_handler (finish_pairing d [] p) PairingError w of
               (Inl ex, w1) \<Rightarrow> (Inl ex, self, w1)
             | (Inr c, w1) \<Rightarrow>
                 (let creds = credentials_str d c in
                  case parse_credentials d creds of
                    Inl ex \<Rightarrow> (Inl ex, self, w1)
                  | Inr parsed \<Rightarrow>
                      (case error_handler (mrp_verify_credentials d parsed) PairingError w1 of
                         (Inl ex, w2) \<Rightarrow> (Inl ex, self, w2)
                       | (Inr verified, w2) \<Rightarrow>
                           (Inr (),
                            self\<lparr>service := (service self)\<lparr>credentials := Some creds\<rparr>,
                                 has_paired := True\<rparr>,
                            w2)))))"

subsection \<open>Call sequences\<close>

text \<open>
  A caller drives one handler through a sequence of calls; an exception of a call is
  caught by the caller, who goes on with the handler as the call left it.
\<close>

datatype call = CallBegin | CallPin py_value | CallFinish

fun is_pin :: "call \<Rightarrow> bool" where
  "is_pin (CallPin v) = True"
| "is_pin c = False"

fun do_call :: "'w env \<Rightarrow> call \<Rightarrow> MrpPairingHandler \<times> 'w \<Rightarrow> MrpPairingHandler \<times> 'w" where
  "do_call d CallBegin (self, w) = (self, snd (begin_pairing d self w))"
| "do_call d (CallPin v) (self, w) = (pin v self, w)"
| "do_call d CallFinish (self, w) = snd (finish d self w)"

fun do_calls :: "'w env \<Rightarrow> call list \<Rightarrow> MrpPairingHandler \<times> 'w \<Rightarrow> MrpPairingHandler \<times> 'w" where
  "do_calls d [] s = s"
| "do_calls d (c # cs) s = do_calls d cs (do_call d c s)"

section \<open>A concrete environment\<close>

text \<open>
  One instance of the collaborators, on which the theorems below are applied to concrete
  inputs. The state counts the messages exchanged with the device. The device accepts
  the PIN 1234; a credential token is the long-term public key; the feature string is
  \<^verbatim>\<open>0x\<close> and hexadecimal digits.
\<close>

definition example_credentials :: HapCredentials where
  "example_credentials =
     \<lparr>type = HAP, cred_identifier = Some ''atv'', long_term_public_key = ''c0ffee'',
      long_term_secret_key = Some ''5ec2e7'', extra = []\<rparr>"

definition example_parse_credentials :: "string \<Rightarrow> exn + HapCredentials" where
  "example_parse_credentials s =
     (if s = [] then Inl (OtherError ''invalid credentials'')
      else Inr (example_credentials\<lparr>long_term_public_key := s\<rparr>))"

fun hex_digit :: "char \<Rightarrow> nat option" where
  "hex_digit c =
     (if c \<in> set ''0123456789'' then Some (of_char c - 48)
      else if c \<in> set ''abcdef'' then Some (of_char c - 87)
      else if c \<in> set ''ABCDEF'' then Some (of_char c - 55)
      else None)"

fun hex_value :: "nat \<Rightarrow> string \<Rightarrow> nat option" where
  "hex_value acc [] = Some acc"
| "hex_value acc (c # cs) =
     (case hex_digit c of None \<Rightarrow> None | Some k \<Rightarrow> hex_value (16 * acc + k) cs)"

definition example_ft_parse :: "string \<Rightarrow> exn + nat" where
  "example_ft_parse s =
     (if take 2 s = ''0x'' \<and> drop 2 s \<noteq> [] then
        (case hex_value 0 (drop 2 s) of
           None \<Rightarrow> Inl (OtherError ''invalid feature string'')
         | Some k \<Rightarrow> Inr k)
      else Inl (OtherError ''invalid feature string''))"

definition example_env :: "nat env" where
  "example_env =
     \<lparr>new_credentials = example_credentials\<lparr>type := Legacy\<rparr>,
      parse_credentials = example_parse_credentials,
      credentials_str = long_term_public_key,
      ft_parse = example_ft_parse,
      SupportsSystemPairing = 0x8000000,
      SupportsCoreUtilsPairingAndEncryption = 0x10000000,
      proc_verify_credentials = (\<lambda>verifier w. (Inr True, w + 2)),
      proc_encryption_keys =
        (\<lambda>verifier w salt output_info input_info.
           Inr (salt @ ''/'' @ output_info, salt @ ''/'' @ input_info)),
      start_pairing = (\<lambda>w. (Inr (), w + 1)),
      finish_pairing =
        (\<lambda>username p w.
           if p = ''1234'' then (Inr example_credentials, w + 2)
           else (Inl (OtherError ''wrong pin''), w + 1)),
      mrp_verify_credentials = (\<lambda>c w. (Inr True, w + 2))\<rparr>"

definition example_service :: BaseService where
  "example_service =
     \<lparr>service_identifier = Some ''mrp_id'', protocol = MRP, port = 49152,
      properties = Map.empty, credentials = None, password = None\<rparr>"

definition example_config :: AppleTV where
  "example_config =
     \<lparr>address = 2130706433, name = ''Living Room'', deep_sleep = False,
      services = [MRP \<mapsto> example_service],
      device_info = Map.empty, device_properties = Map.empty\<rparr>"

definition plain_heap :: heap where
  "plain_heap = (\<lambda>r. \<lparr>receive_processor = pass_through, send_processor = pass_through\<rparr>)"

definition example_handler :: MrpPairingHandler where
  "example_handler = MrpPairingHandler_init (example_service\<lparr>credentials := Some ''0ldc0de''\<rparr>)"

text \<open>The same environment with a device that refuses the verification of new credentials.\<close>

definition failing_verify_env :: "nat env" where
  "failing_verify_env =
     example_env\<lparr>mrp_verify_credentials :=
       (\<lambda>c w. (Inl (OtherError ''verification failed''), w + 1))\<rparr>"

section \<open>Properties of procedure selection\<close>

text \<open>
  Claim C1. For every credentials value and connection, \<^verbatim>\<open>pair_verify\<close> returns the Null
  verifier when the credentials' type is Null, the Legacy verifier (on a legacy SRP
  engine seeded with the credentials) when it is Legacy, the HAP verifier (on a fresh HAP
  engine, with the credentials) when it is HAP, and the transient HAP verifier (on a
  fresh HAP engine, without credentials) for every other type.
\<close>

theorem pair_verify_dispatch:
  "(type c = Null \<longrightarrow> pair_verify c conn = NullPairVerifyProcedure) \<and>
   (type c = Legacy \<longrightarrow>
      pair_verify c conn = AirPlayLegacyPairVerifyProcedure conn (LegacySRPAuthHandler c True)) \<and>
   (type c = HAP \<longrightarrow>
      pair_verify c conn = AirPlayHapPairVerifyProcedure conn (SRPAuthHandler True) c) \<and>
   (type c \<notin> {Null, Legacy, HAP} \<longrightarrow>
      pair_verify c conn = AirPlayHapTransientPairVerifyProcedure conn (SRPAuthHandler True))"
  by (simp add: pair_verify_def)

theorem pair_verify_dispatch_witness:
  "pair_verify NO_CREDENTIALS 7 = NullPairVerifyProcedure \<and>
   pair_verify (example_credentials\<lparr>type := Legacy\<rparr>) 7 =
     AirPlayLegacyPairVerifyProcedure 7
       (LegacySRPAuthHandler (example_credentials\<lparr>type := Legacy\<rparr>) True) \<and>
   pair_verify example_credentials 7 =
     AirPlayHapPairVerifyProcedure 7 (SRPAuthHandler True) example_credentials \<and>
   pair_verify TRANSIENT_CREDENTIALS 7 =
     AirPlayHapTransientPairVerifyProcedure 7 (SRPAuthHandler True)"
  using pair_verify_dispatch [of NO_CREDENTIALS 7]
    pair_verify_dispatch [of "example_credentials\<lparr>type := Legacy\<rparr>" 7]
    pair_verify_dispatch [of example_credentials 7]
    pair_verify_dispatch [of TRANSIENT_CREDENTIALS 7]
  by (simp add: NO_CREDENTIALS_def TRANSIENT_CREDENTIALS_def example_credentials_def)

text \<open>
  Claim C2. \<^verbatim>\<open>pair_setup\<close> returns a Legacy Pair-Setup procedure for Legacy and a HAP
  Pair-Setup procedure for HAP, each bound to the connection, and raises
  \<^verbatim>\<open>NotSupportedError\<close> for every other authentication type.
\<close>

theorem pair_setup_dispatch:
  "pair_setup d Legacy conn =
     Inr (AirPlayLegacyPairSetupProcedure conn (LegacySRPAuthHandler (new_credentials d) True)) \<and>
   pair_setup d HAP conn = Inr (AirPlayHapPairSetupProcedure conn (SRPAuthHandler True)) \<and>
   (t \<noteq> Legacy \<and> t \<noteq> HAP \<longrightarrow>
      pair_setup d t conn =
        Inl (NotSupportedError
               (''authentication type '' @ AuthenticationType_str t
                  @ '' does not support Pair-Setup'')))"
  by (simp add: pair_setup_def)

theorem pair_setup_dispatch_witness:
  "pair_setup example_env Transient 7 =
     Inl (NotSupportedError
            ''authentication type AuthenticationType.Transient does not support Pair-Setup'') \<and>
   pair_setup example_env Null 7 =
     Inl (NotSupportedError
            ''authentication type AuthenticationType.Null does not support Pair-Setup'')"
  using pair_setup_dispatch [of example_env 7 Transient]
    pair_setup_dispatch [of example_env 7 Null]
  by simp

text \<open>
  Claim C7. The Null verifier's \<^verbatim>\<open>verify_credentials\<close> returns false on every call, in
  every state and without changing it, and its \<^verbatim>\<open>encryption_keys\<close> raises
  \<^verbatim>\<open>NotSupportedError\<close> for every choice of the three arguments.
\<close>

theorem Null_verifier_never_has_keys:
  "verify_credentials d NullPairVerifyProcedure w = (Inr False, w) \<and>
   Null_verify_credentials w = (Inr False, w) \<and>
   encryption_keys d NullPairVerifyProcedure w salt output_info input_key_info =
     Inl (NotSupportedError ''encryption keys not supported by null implementation'') \<and>
   Null_encryption_keys salt output_info input_key_info =
     Inl (NotSupportedError ''encryption keys not supported by null implementation'')"
  by (simp add: Null_verify_credentials_def Null_encryption_keys_def)

section \<open>Properties of the configuration\<close>

text \<open>
  Claim C10. When a service is registered for the protocol, \<^verbatim>\<open>set_credentials\<close> returns
  true, the service's credentials become the given string, its other attributes, every
  other service and every other field of the configuration stay as they were. When no
  service is registered, it returns false and the configuration is unchanged. The
  function has no raise: absence is reported by the boolean.
\<close>

theorem set_credentials_frame:
  "(get_service cfg p = Some s \<longrightarrow>
      fst (set_credentials cfg p c) = True \<and>
      services (snd (set_credentials cfg p c)) p = Some (s\<lparr>credentials := Some c\<rparr>) \<and>
      (\<forall>q. q \<noteq> p \<longrightarrow> services (snd (set_credentials cfg p c)) q = services cfg q) \<and>
      (snd (set_credentials cfg p c))\<lparr>services := services cfg\<rparr> = cfg) \<and>
   (get_service cfg p = None \<longrightarrow> set_credentials cfg p c = (False, cfg))"
  by (simp add: set_credentials_def get_service_def)

theorem set_credentials_frame_witness:
  "fst (set_credentials example_config MRP ''token'') = True \<and>
   services (snd (set_credentials example_config MRP ''token'')) MRP =
     Some (example_service\<lparr>credentials := Some ''token''\<rparr>) \<and>
   services (snd (set_credentials example_config MRP ''token'')) AirPlay = None \<and>
   set_credentials example_config DMAP ''token'' = (False, example_config)"
  using set_credentials_frame [of example_config MRP example_service "''token''"]
    set_credentials_frame [of example_config DMAP example_service "''token''"]
  by (simp add: get_service_def example_config_def)

section \<open>Properties of credential extraction\<close>

lemma example_ft_parse_zero: "example_ft_parse ''0x0'' = Inr 0"
  by (simp add: example_ft_parse_def)
lemma example_ft_parse_both: "example_ft_parse ''0x18000000'' = Inr 0x18000000"
  by (simp add: example_ft_parse_def)
lemma example_flag_present: "flag_in 0x8000000 0x18000000"
  unfolding flag_in_def by simp
lemma example_flag_absent: "\<not> flag_in 0x8000000 0" "\<not> flag_in 0x10000000 0"
  unfolding flag_in_def by simp_all

text \<open>
  Claim C5. When the service has stored credentials, \<^verbatim>\<open>extract_credentials\<close> is the parse
  of that token, whatever the properties say. When it has none and the feature string
  (the property \<^verbatim>\<open>features\<close>, or \<^verbatim>\<open>0x0\<close> when absent) parses to a flag set, the result
  is the transient sentinel if the set contains the system-pairing flag or the
  core-utils-pairing-and-encryption flag, and the no-credentials sentinel otherwise.
  The two sentinels differ.
\<close>

theorem extract_credentials_cases:
  "(credentials s = Some c \<longrightarrow> extract_credentials d s = parse_credentials d c) \<and>
   (credentials s = None \<and>
    ft_parse d (case properties s ''features'' of None \<Rightarrow> ''0x0'' | Some v \<Rightarrow> v) = Inr f \<longrightarrow>
      extract_credentials d s =
        Inr (if flag_in (SupportsSystemPairing d) f
                \<or> flag_in (SupportsCoreUtilsPairingAndEncryption d) f
             then TRANSIENT_CREDENTIALS else NO_CREDENTIALS)) \<and>
   TRANSIENT_CREDENTIALS \<noteq> NO_CREDENTIALS"
  by (simp add: extract_credentials_def TRANSIENT_CREDENTIALS_def NO_CREDENTIALS_def)
theorem extract_credentials_cases_witness:
  "extract_credentials example_env (example_service\<lparr>credentials := Some ''c0ffee''\<rparr>) =
     Inr example_credentials \<and>
   extract_credentials example_env
     (example_service\<lparr>properties := [''features'' \<mapsto> ''0x18000000'']\<rparr>) =
     Inr TRANSIENT_CREDENTIALS \<and>
   extract_credentials example_env example_service = Inr NO_CREDENTIALS"
proof -
  have p: "parse_credentials example_env ''c0ffee'' = Inr example_credentials"
    by (simp add: example_env_def example_parse_credentials_def example_credentials_def)
  have a: "credentials (example_service\<lparr>credentials := Some ''c0ffee''\<rparr>) = Some ''c0ffee''"
    by simp
  have b: "credentials (example_service\<lparr>properties := [''features'' \<mapsto> ''0x18000000'']\<rparr>) = None
      \<and> ft_parse example_env
          (case properties (example_service\<lparr>properties := [''features'' \<mapsto> ''0x18000000'']\<rparr>)
                  ''features'' of None \<Rightarrow> ''0x0'' | Some v \<Rightarrow> v) = Inr 0x18000000"
    using example_ft_parse_both by (simp add: example_service_def example_env_def)
  have c: "credentials example_service = None
      \<and> ft_parse example_env
          (case properties example_service ''features'' of None \<Rightarrow> ''0x0'' | Some v \<Rightarrow> v) = Inr 0"
    using example_ft_parse_zero by (simp add: example_service_def example_env_def)
  have f: "SupportsSystemPairing example_env = 0x8000000"
    "SupportsCoreUtilsPairingAndEncryption example_env = 0x10000000"
    by (simp_all add: example_env_def)
  from a p have 1: "extract_credentials example_env (example_service\<lparr>credentials := Some ''c0ffee''\<rparr>) =
     Inr example_credentials"
    using extract_credentials_cases
      [of "example_service\<lparr>credentials := Some ''c0ffee''\<rparr>" "''c0ffee''" example_env 0]
    by presburger
  from b have 2: "extract_credentials example_env
     (example_service\<lparr>properties := [''features'' \<mapsto> ''0x18000000'']\<rparr>) =
     Inr TRANSIENT_CREDENTIALS"
    using extract_credentials_cases
      [of "example_service\<lparr>properties := [''features'' \<mapsto> ''0x18000000'']\<rparr>" "''c0ffee''"
          example_env "0x18000000"] example_flag_present unfolding f
    by presburger
  from c have 3: "extract_credentials example_env example_service = Inr NO_CREDENTIALS"
    using extract_credentials_cases [of example_service "''c0ffee''" example_env 0] example_flag_absent
    unfolding f by presburger
  from 1 2 3 show ?thesis by blast
qed

section \<open>Properties of the pairing handler\<close>

lemma error_handler_Inr:
  "func w = (Inr v, w') \<Longrightarrow> error_handler func fallback w = (Inr v, w')"
  by (simp add: error_handler_def)

lemma error_handler_Inl:
  "func w = (Inl ex, w') \<Longrightarrow> error_handler func fallback w = (Inl (fallback (exn_str ex)), w')"
  by (simp add: error_handler_def)

lemma finish_no_pin:
  "pin_code h = None \<or> pin_code h = Some [] \<Longrightarrow>
     finish d h w = (Inl (PairingError ''no pin given''), h, w)"
  by (auto simp: finish_def)

lemma finish_success:
  assumes "pin_code h = Some p" "p \<noteq> []"
    and "finish_pairing d [] p w = (Inr c, w1)"
    and "parse_credentials d (credentials_str d c) = Inr parsed"
    and "mrp_verify_credentials d parsed w1 = (Inr b, w2)"
  shows "finish d h w =
     (Inr (), h\<lparr>service := (service h)\<lparr>credentials := Some (credentials_str d c)\<rparr>,
                has_paired := True\<rparr>, w2)"
  using assms by (simp add: finish_def error_handler_Inr)

lemma finish_Inl_unchanged:
  "finish d h w = (Inl e, h', w') \<Longrightarrow> h' = h"
  by (auto simp: finish_def Let_def split: option.splits if_splits prod.splits sum.splits)

lemma finish_Inr_steps:
  assumes "finish d h w = (Inr u, h', w')"
  shows "\<exists>p c w1 parsed b. pin_code h = Some p \<and> p \<noteq> [] \<and>
           finish_pairing d [] p w = (Inr c, w1) \<and>
           parse_credentials d (credentials_str d c) = Inr parsed \<and>
           mrp_verify_credentials d parsed w1 = (Inr b, w') \<and>
           h' = h\<lparr>service := (service h)\<lparr>credentials := Some (credentials_str d c)\<rparr>,
                   has_paired := True\<rparr>"
  using assms
  by (auto simp: finish_def Let_def error_handler_def
      split: option.splits if_splits prod.splits sum.splits)

lemma finish_setup_fails:
  assumes "pin_code h = Some p" "p \<noteq> []"
    and "finish_pairing d [] p w = (Inl ex, w1)"
  shows "finish d h w = (Inl (PairingError (exn_str ex)), h, w1)"
  using assms by (simp add: finish_def error_handler_Inl)

lemma finish_verify_fails:
  assumes "pin_code h = Some p" "p \<noteq> []"
    and "finish_pairing d [] p w = (Inr c, w1)"
    and "parse_credentials d (credentials_str d c) = Inr parsed"
    and "mrp_verify_credentials d parsed w1 = (Inl ex, w2)"
  shows "finish d h w = (Inl (PairingError (exn_str ex)), h, w2)"
  using assms by (simp add: finish_def error_handler_Inl error_handler_Inr)


lemma do_call_without_pin:
  "\<not> is_pin c \<Longrightarrow> pin_code h = None \<Longrightarrow> fst (do_call d c (h, w)) = h"
  by (cases c) (simp_all add: finish_no_pin)

lemma do_calls_without_pin:
  "\<forall>c\<in>set cs. \<not> is_pin c \<Longrightarrow> pin_code h = None \<Longrightarrow> fst (do_calls d cs (h, w)) = h"
proof (induction cs arbitrary: w)
  case Nil
  then show ?case by simp
next
  case (Cons c cs)
  obtain w1 where step: "do_call d c (h, w) = (h, w1)"
    using do_call_without_pin [of c h d w] Cons.prems
    by (cases "do_call d c (h, w)") simp
  show ?case
    using Cons.IH [of w1] Cons.prems step by simp
qed

text \<open>
  Claim C3. On a handler whose PIN is unset, \<^verbatim>\<open>finish\<close> raises \<^verbatim>\<open>PairingError\<close> with the
  message "no pin given" at once: the handler and the collaborators' state are returned
  as they were, so no message is exchanged. After any sequence of \<^verbatim>\<open>begin\<close> and \<^verbatim>\<open>finish\<close>
  calls on a new handler, with no \<^verbatim>\<open>pin\<close> call among them, the handler is still as
  constructed: the PIN is unset, \<^verbatim>\<open>has_paired\<close> is false and \<^verbatim>\<open>finish\<close> raises that error.
\<close>

theorem finish_without_pin:
  "(pin_code h = None \<longrightarrow> finish d h w = (Inl (PairingError ''no pin given''), h, w)) \<and>
   ((\<forall>c\<in>set cs. \<not> is_pin c) \<longrightarrow>
      (case do_calls d cs (MrpPairingHandler_init svc, w0) of
         (h', w') \<Rightarrow>
           h' = MrpPairingHandler_init svc \<and> pin_code h' = None \<and> \<not> has_paired h' \<and>
           finish d h' w' = (Inl (PairingError ''no pin given''), h', w')))"
proof (intro conjI impI)
  assume "pin_code h = None"
  then show "finish d h w = (Inl (PairingError ''no pin given''), h, w)"
    by (simp add: finish_no_pin)
next
  assume nopin: "\<forall>c\<in>set cs. \<not> is_pin c"
  obtain h' w' where run: "do_calls d cs (MrpPairingHandler_init svc, w0) = (h', w')"
    by (cases "do_calls d cs (MrpPairingHandler_init svc, w0)")
  have "pin_code (MrpPairingHandler_init svc) = None"
    by (simp add: MrpPairingHandler_init_def)
  with nopin have "fst (do_calls d cs (MrpPairingHandler_init svc, w0)) = MrpPairingHandler_init svc"
    by (rule do_calls_without_pin)
  with run have same: "h' = MrpPairingHandler_init svc" by simp
  then have "pin_code h' = None" "\<not> has_paired h'"
    by (simp_all add: MrpPairingHandler_init_def)
  moreover from this have "finish d h' w' = (Inl (PairingError ''no pin given''), h', w')"
    by (simp add: finish_no_pin)
  ultimately show "case do_calls d cs (MrpPairingHandler_init svc, w0) of
         (h', w') \<Rightarrow>
           h' = MrpPairingHandler_init svc \<and> pin_code h' = None \<and> \<not> has_paired h' \<and>
           finish d h' w' = (Inl (PairingError ''no pin given''), h', w')"
    using run same by simp
qed

lemma example_begin:
  "begin_pairing example_env h w = (Inr (), w + 1)"
  by (simp add: begin_pairing_def error_handler_def example_env_def)

theorem finish_without_pin_witness:
  "pin_code (MrpPairingHandler_init example_service) = None \<and>
   finish example_env (MrpPairingHandler_init example_service) 0 =
     (Inl (PairingError ''no pin given''), MrpPairingHandler_init example_service, 0) \<and>
   do_calls example_env [CallBegin, CallFinish, CallBegin] (MrpPairingHandler_init example_service, 0) =
     (MrpPairingHandler_init example_service, 2) \<and>
   \<not> has_paired (MrpPairingHandler_init example_service) \<and>
   finish example_env (MrpPairingHandler_init example_service) 2 =
     (Inl (PairingError ''no pin given''), MrpPairingHandler_init example_service, 2)"
proof -
  have n: "pin_code (MrpPairingHandler_init example_service) = None"
    by (simp add: MrpPairingHandler_init_def)
  have c: "\<forall>c\<in>set [CallBegin, CallFinish, CallBegin]. \<not> is_pin c"
    by simp
  have r: "do_calls example_env [CallBegin, CallFinish, CallBegin]
        (MrpPairingHandler_init example_service, 0) = (MrpPairingHandler_init example_service, 2)"
    using n by (simp add: example_begin finish_no_pin)
  show ?thesis
    using n c r
      finish_without_pin [of "MrpPairingHandler_init example_service" example_env 0
        "[CallBegin, CallFinish, CallBegin]" example_service 0]
    by simp
qed

text \<open>
  Claim C4. A step succeeds when it returns without raising. If \<^verbatim>\<open>finish\<close> raises, the
  handler (its service's credentials and \<^verbatim>\<open>has_paired\<close>) is as it was before the call. If
  it returns, then \<^verbatim>\<open>finish_pairing\<close> returned credentials, their token parsed, the
  Pair-Verify step returned, and only then the token was stored and \<^verbatim>\<open>has_paired\<close> set.
  If \<^verbatim>\<open>finish_pairing\<close> raises, or Pair-Verify raises, \<^verbatim>\<open>finish\<close> raises and leaves the
  handler unchanged; if both return, the token is stored and \<^verbatim>\<open>has_paired\<close> is true.
\<close>

theorem finish_all_or_nothing:
  "(finish d h w = (Inl e, h', w') \<longrightarrow> h' = h) \<and>
   (finish d h w = (Inr u, h', w') \<longrightarrow>
      (\<exists>p c w1 parsed b. pin_code h = Some p \<and> p \<noteq> [] \<and>
         finish_pairing d [] p w = (Inr c, w1) \<and>
         parse_credentials d (credentials_str d c) = Inr parsed \<and>
         mrp_verify_credentials d parsed w1 = (Inr b, w') \<and>
         h' = h\<lparr>service := (service h)\<lparr>credentials := Some (credentials_str d c)\<rparr>,
                 has_paired := True\<rparr>)) \<and>
   (pin_code h = Some q \<and> q \<noteq> [] \<and> finish_pairing d [] q w = (Inl ex, w1) \<longrightarrow>
      (\<exists>e'. finish d h w = (Inl e', h, w1))) \<and>
   (pin_code h = Some q \<and> q \<noteq> [] \<and> finish_pairing d [] q w = (Inr c, w1) \<and>
    parse_credentials d (credentials_str d c) = Inr parsed \<and>
    mrp_verify_credentials d parsed w1 = (Inl ex, w2) \<longrightarrow>
      (\<exists>e'. finish d h w = (Inl e', h, w2))) \<and>
   (pin_code h = Some q \<and> q \<noteq> [] \<and> finish_pairing d [] q w = (Inr c, w1) \<and>
    parse_credentials d (credentials_str d c) = Inr parsed \<and>
    mrp_verify_credentials d parsed w1 = (Inr b, w2) \<longrightarrow>
      finish d h w =
        (Inr (), h\<lparr>service := (service h)\<lparr>credentials := Some (credentials_str d c)\<rparr>,
                   has_paired := True\<rparr>, w2))"
proof (intro conjI impI)
  assume "finish d h w = (Inl e, h', w')"
  then show "h' = h" by (rule finish_Inl_unchanged)
next
  assume "finish d h w = (Inr u, h', w')"
  then show "\<exists>p c w1 parsed b. pin_code h = Some p \<and> p \<noteq> [] \<and>
         finish_pairing d [] p w = (Inr c, w1) \<and>
         parse_credentials d (credentials_str d c) = Inr parsed \<and>
         mrp_verify_credentials d parsed w1 = (Inr b, w') \<and>
         h' = h\<lparr>service := (service h)\<lparr>credentials := Some (credentials_str d c)\<rparr>,
                 has_paired := True\<rparr>"
    by (rule finish_Inr_steps)
next
  assume "pin_code h = Some q \<and> q \<noteq> [] \<and> finish_pairing d [] q w = (Inl ex, w1)"
  then show "\<exists>e'. finish d h w = (Inl e', h, w1)"
    using finish_setup_fails [of h q d w ex w1] by blast
next
  assume "pin_code h = Some q \<and> q \<noteq> [] \<and> finish_pairing d [] q w = (Inr c, w1) \<and>
    parse_credentials d (credentials_str d c) = Inr parsed \<and>
    mrp_verify_credentials d parsed w1 = (Inl ex, w2)"
  then show "\<exists>e'. finish d h w = (Inl e', h, w2)"
    using finish_verify_fails [of h q d w c w1 parsed ex w2] by blast
next
  assume "pin_code h = Some q \<and> q \<noteq> [] \<and> finish_pairing d [] q w = (Inr c, w1) \<and>
    parse_credentials d (credentials_str d c) = Inr parsed \<and>
    mrp_verify_credentials d parsed w1 = (Inr b, w2)"
  then show "finish d h w =
        (Inr (), h\<lparr>service := (service h)\<lparr>credentials := Some (credentials_str d c)\<rparr>,
                   has_paired := True\<rparr>, w2)"
    using finish_success [of h q d w c w1 parsed b w2] by blast
qed


lemma example_pin_1234: "zfill 4 (int_str 1234) = ''1234''"
  by code_simp

lemma example_pin_1: "zfill 4 (int_str 1) = ''0001''"
  by code_simp

theorem finish_all_or_nothing_witness:
  "finish example_env (pin (PyInt 1234) example_handler) 0 =
     (Inr (), (pin (PyInt 1234) example_handler)
                \<lparr>service := (service (pin (PyInt 1234) example_handler))
                               \<lparr>credentials := Some ''c0ffee''\<rparr>,
                 has_paired := True\<rparr>, 4) \<and>
   (\<exists>e'. finish example_env (pin (PyInt 1) example_handler) 0 =
           (Inl e', pin (PyInt 1) example_handler, 1)) \<and>
   credentials (service (pin (PyInt 1) example_handler)) = Some ''0ldc0de'' \<and>
   (\<exists>e'. finish failing_verify_env (pin (PyInt 1234) example_handler) 0 =
           (Inl e', pin (PyInt 1234) example_handler, 3))"
proof -
  let ?ok = "pin (PyInt 1234) example_handler"
  let ?bad = "pin (PyInt 1) example_handler"
  have pok: "pin_code ?ok = Some ''1234'' \<and> ''1234'' \<noteq> []"
    by (simp add: pin_def example_pin_1234)
  have pbad: "pin_code ?bad = Some ''0001'' \<and> ''0001'' \<noteq> []"
    by (simp add: pin_def example_pin_1)
  have s1: "finish_pairing example_env [] ''1234'' 0 = (Inr example_credentials, 2)"
    by (simp add: example_env_def)
  have s1': "finish_pairing failing_verify_env [] ''1234'' 0 = (Inr example_credentials, 2)"
    by (simp add: failing_verify_env_def example_env_def)
  have s2: "parse_credentials example_env (credentials_str example_env example_credentials)
              = Inr example_credentials"
    by (simp add: example_env_def example_parse_credentials_def example_credentials_def)
  have s2': "parse_credentials failing_verify_env
               (credentials_str failing_verify_env example_credentials) = Inr example_credentials"
    by (simp add: failing_verify_env_def example_env_def example_parse_credentials_def
          example_credentials_def)
  have s3: "mrp_verify_credentials example_env example_credentials 2 = (Inr True, 4)"
    by (simp add: example_env_def)
  have s3': "mrp_verify_credentials failing_verify_env example_credentials 2
               = (Inl (OtherError ''verification failed''), 3)"
    by (simp add: failing_verify_env_def)
  have f1: "finish_pairing example_env [] ''0001'' 0 = (Inl (OtherError ''wrong pin''), 1)"
    by (simp add: example_env_def)
  have tok: "credentials_str example_env example_credentials = ''c0ffee''"
    by (simp add: example_env_def example_credentials_def)
  have old: "credentials (service ?bad) = Some ''0ldc0de''"
    by (simp add: pin_def example_handler_def MrpPairingHandler_init_def)
  have tok': "credentials_str failing_verify_env example_credentials = ''c0ffee''"
    by (simp add: failing_verify_env_def example_env_def example_credentials_def)
  have ha: "pin_code ?ok = Some ''1234'' \<and> ''1234'' \<noteq> [] \<and>
      finish_pairing example_env [] ''1234'' 0 = (Inr example_credentials, 2) \<and>
      parse_credentials example_env (credentials_str example_env example_credentials)
        = Inr example_credentials \<and>
      mrp_verify_credentials example_env example_credentials 2 = (Inr True, 4)"
    using pok s1 s2 s3 by blast
  have a: "finish example_env ?ok 0 =
     (Inr (), ?ok\<lparr>service := (service ?ok)\<lparr>credentials := Some ''c0ffee''\<rparr>,
                   has_paired := True\<rparr>, 4)"
    using finish_all_or_nothing
      [where d = example_env and h = ?ok and w = 0 and q = "''1234''"
         and c = example_credentials and ?w1.0 = 2 and parsed = example_credentials
         and b = True and ?w2.0 = 4,
       THEN conjunct2, THEN conjunct2, THEN conjunct2, THEN conjunct2, THEN mp, OF ha]
    unfolding tok .
  have hb: "pin_code ?bad = Some ''0001'' \<and> ''0001'' \<noteq> [] \<and>
      finish_pairing example_env [] ''0001'' 0 = (Inl (OtherError ''wrong pin''), 1)"
    using pbad f1 by blast
  have b: "\<exists>e'. finish example_env ?bad 0 = (Inl e', ?bad, 1)"
    by (rule finish_all_or_nothing
      [where d = example_env and h = ?bad and w = 0 and q = "''0001''"
         and ex = "OtherError ''wrong pin''" and ?w1.0 = 1,
       THEN conjunct2, THEN conjunct2, THEN conjunct1, THEN mp, OF hb])
  have hc: "pin_code ?ok = Some ''1234'' \<and> ''1234'' \<noteq> [] \<and>
      finish_pairing failing_verify_env [] ''1234'' 0 = (Inr example_credentials, 2) \<and>
      parse_credentials failing_verify_env
        (credentials_str failing_verify_env example_credentials) = Inr example_credentials \<and>
      mrp_verify_credentials failing_verify_env example_credentials 2
        = (Inl (OtherError ''verification failed''), 3)"
    using pok s1' s2' s3' by blast
  have c: "\<exists>e'. finish failing_verify_env ?ok 0 = (Inl e', ?ok, 3)"
    by (rule finish_all_or_nothing
      [where d = failing_verify_env and h = ?ok and w = 0 and q = "''1234''"
         and c = example_credentials and ?w1.0 = 2 and parsed = example_credentials
         and ex = "OtherError ''verification failed''" and ?w2.0 = 3,
       THEN conjunct2, THEN conjunct2, THEN conjunct2, THEN conjunct1, THEN mp, OF hc])
  show ?thesis
    apply (intro conjI)
       apply (rule a)
      apply (rule b)
     apply (rule old)
    apply (rule c)
    done
qed

section \<open>Properties of connection verification\<close>

lemma verify_connection_returns:
  assumes "verify_connection d c r h w = (Inr v, h', w')"
  shows "v = pair_verify c r \<and>
     ((verify_credentials d v w = (Inr True, w') \<and>
       (\<exists>ok ik. encryption_keys d v w' ''Control-Salt'' ''Control-Write-Encryption-Key''
                   ''Control-Read-Encryption-Key'' = Inr (ok, ik) \<and>
          h' = h(r := (h r)\<lparr>receive_processor := session_decrypt (enable ok ik),
                            send_processor := session_encrypt (enable ok ik)\<rparr>))) \<or>
      (verify_credentials d v w = (Inr False, w') \<and> h' = h))"
  using assms
  by (auto simp: verify_connection_def Let_def CONTROL_SALT_def CONTROL_OUTPUT_INFO_def
        CONTROL_INPUT_INFO_def split: prod.splits sum.splits if_splits)

lemma verify_connection_raises:
  "verify_connection d c r h w = (Inl e, h', w') \<Longrightarrow> h' = h"
  by (auto simp: verify_connection_def Let_def split: prod.splits sum.splits if_splits)

lemma verify_connection_true:
  assumes "verify_credentials d (pair_verify c r) w = (Inr True, w')"
    and "encryption_keys d (pair_verify c r) w' ''Control-Salt'' ''Control-Write-Encryption-Key''
           ''Control-Read-Encryption-Key'' = Inr (ok, ik)"
  shows "verify_connection d c r h w =
     (Inr (pair_verify c r),
      h(r := (h r)\<lparr>receive_processor := session_decrypt (enable ok ik),
                   send_processor := session_encrypt (enable ok ik)\<rparr>), w')"
  using assms
  by (simp add: verify_connection_def Let_def CONTROL_SALT_def CONTROL_OUTPUT_INFO_def
        CONTROL_INPUT_INFO_def)

lemma verify_connection_false:
  assumes "verify_credentials d (pair_verify c r) w = (Inr False, w')"
  shows "verify_connection d c r h w = (Inr (pair_verify c r), h, w')"
  using assms by (simp add: verify_connection_def Let_def)


text \<open>
  Claim C6. When \<^verbatim>\<open>verify_connection\<close> returns, it returns the verifier of \<^verbatim>\<open>pair_verify\<close>,
  whose \<^verbatim>\<open>verify_credentials\<close> returned a boolean. If that was true, the keys are those of
  \<^verbatim>\<open>encryption_keys\<close> on the three control-channel labels, the connection's receive hook
  is the decrypt transform and its send hook the encrypt transform of the session
  enabled with these keys, neither is the pass-through, and every other connection is
  unchanged. If it was false, no connection has changed; nor has any when
  \<^verbatim>\<open>verify_connection\<close> raises.
\<close>

theorem verify_connection_hooks:
  "(verify_connection d c r h w = (Inl e, h'', w'') \<longrightarrow> h'' = h) \<and>
   (verify_connection d c r h w = (Inr v, h', w') \<longrightarrow>
     v = pair_verify c r \<and>
     (\<exists>b. verify_credentials d v w = (Inr b, w')) \<and>
     (fst (verify_credentials d v w) = Inr True \<longrightarrow>
        (\<exists>ok ik.
           encryption_keys d v w' ''Control-Salt'' ''Control-Write-Encryption-Key''
             ''Control-Read-Encryption-Key'' = Inr (ok, ik) \<and>
           receive_processor (h' r) = session_decrypt (enable ok ik) \<and>
           send_processor (h' r) = session_encrypt (enable ok ik)) \<and>
        receive_processor (h' r) \<noteq> pass_through \<and>
        send_processor (h' r) \<noteq> pass_through \<and>
        (\<forall>q. q \<noteq> r \<longrightarrow> h' q = h q)) \<and>
     (fst (verify_credentials d v w) = Inr False \<longrightarrow> h' = h))"
proof (rule conjI; rule impI)
  assume "verify_connection d c r h w = (Inl e, h'', w'')"
  then show "h'' = h" by (rule verify_connection_raises)
next
  assume "verify_connection d c r h w = (Inr v, h', w')"
  from verify_connection_returns [OF this]
  have v: "v = pair_verify c r"
    and cases: "(verify_credentials d v w = (Inr True, w') \<and>
       (\<exists>ok ik. encryption_keys d v w' ''Control-Salt'' ''Control-Write-Encryption-Key''
                   ''Control-Read-Encryption-Key'' = Inr (ok, ik) \<and>
          h' = h(r := (h r)\<lparr>receive_processor := session_decrypt (enable ok ik),
                            send_processor := session_encrypt (enable ok ik)\<rparr>))) \<or>
      (verify_credentials d v w = (Inr False, w') \<and> h' = h)"
    by blast+
  from cases show "v = pair_verify c r \<and>
     (\<exists>b. verify_credentials d v w = (Inr b, w')) \<and>
     (fst (verify_credentials d v w) = Inr True \<longrightarrow>
        (\<exists>ok ik.
           encryption_keys d v w' ''Control-Salt'' ''Control-Write-Encryption-Key''
             ''Control-Read-Encryption-Key'' = Inr (ok, ik) \<and>
           receive_processor (h' r) = session_decrypt (enable ok ik) \<and>
           send_processor (h' r) = session_encrypt (enable ok ik)) \<and>
        receive_processor (h' r) \<noteq> pass_through \<and>
        send_processor (h' r) \<noteq> pass_through \<and>
        (\<forall>q. q \<noteq> r \<longrightarrow> h' q = h q)) \<and>
     (fst (verify_credentials d v w) = Inr False \<longrightarrow> h' = h)"
  proof
    assume t: "verify_credentials d v w = (Inr True, w') \<and>
       (\<exists>ok ik. encryption_keys d v w' ''Control-Salt'' ''Control-Write-Encryption-Key''
                   ''Control-Read-Encryption-Key'' = Inr (ok, ik) \<and>
          h' = h(r := (h r)\<lparr>receive_processor := session_decrypt (enable ok ik),
                            send_processor := session_encrypt (enable ok ik)\<rparr>))"
    then obtain ok ik where
      k: "encryption_keys d v w' ''Control-Salt'' ''Control-Write-Encryption-Key''
                   ''Control-Read-Encryption-Key'' = Inr (ok, ik)"
      and h': "h' = h(r := (h r)\<lparr>receive_processor := session_decrypt (enable ok ik),
                            send_processor := session_encrypt (enable ok ik)\<rparr>)"
      by blast
    from h' have "receive_processor (h' r) = session_decrypt (enable ok ik)"
      "send_processor (h' r) = session_encrypt (enable ok ik)"
      "\<forall>q. q \<noteq> r \<longrightarrow> h' q = h q"
      by simp_all
    with v t k show ?thesis by auto
  next
    assume f: "verify_credentials d v w = (Inr False, w') \<and> h' = h"
    then have "\<exists>b. verify_credentials d v w = (Inr b, w')" by blast
    with v f show ?thesis by simp
  qed
qed

lemma example_transient_verify:
  "verify_credentials example_env (pair_verify TRANSIENT_CREDENTIALS 3) 0 = (Inr True, 2)"
  by (simp add: pair_verify_def TRANSIENT_CREDENTIALS_def example_env_def)

lemma example_transient_keys:
  "encryption_keys example_env (pair_verify TRANSIENT_CREDENTIALS 3) 2 ''Control-Salt''
     ''Control-Write-Encryption-Key'' ''Control-Read-Encryption-Key'' =
   Inr (''Control-Salt/Control-Write-Encryption-Key'', ''Control-Salt/Control-Read-Encryption-Key'')"
  by (simp add: pair_verify_def TRANSIENT_CREDENTIALS_def example_env_def)

lemma example_null_verify:
  "verify_credentials example_env (pair_verify NO_CREDENTIALS 3) 0 = (Inr False, 0)"
  by (simp add: pair_verify_def NO_CREDENTIALS_def Null_verify_credentials_def)

theorem verify_connection_hooks_witness:
  "verify_connection example_env TRANSIENT_CREDENTIALS 3 plain_heap 0 =
     (Inr (AirPlayHapTransientPairVerifyProcedure 3 (SRPAuthHandler True)),
      plain_heap(3 :=
        \<lparr>receive_processor = session_decrypt
           (enable ''Control-Salt/Control-Write-Encryption-Key''
                   ''Control-Salt/Control-Read-Encryption-Key''),
         send_processor = session_encrypt
           (enable ''Control-Salt/Control-Write-Encryption-Key''
                   ''Control-Salt/Control-Read-Encryption-Key'')\<rparr>), 2) \<and>
   receive_processor
     ((plain_heap(3 :=
        \<lparr>receive_processor = session_decrypt
           (enable ''Control-Salt/Control-Write-Encryption-Key''
                   ''Control-Salt/Control-Read-Encryption-Key''),
         send_processor = session_encrypt
           (enable ''Control-Salt/Control-Write-Encryption-Key''
                   ''Control-Salt/Control-Read-Encryption-Key'')\<rparr>)) 3) \<noteq> pass_through \<and>
   verify_connection example_env NO_CREDENTIALS 3 plain_heap 0 =
     (Inr NullPairVerifyProcedure, plain_heap, 0)"
proof -
  let ?s = "enable ''Control-Salt/Control-Write-Encryption-Key''
                   ''Control-Salt/Control-Read-Encryption-Key''"
  let ?h = "plain_heap(3 := \<lparr>receive_processor = session_decrypt ?s,
                              send_processor = session_encrypt ?s\<rparr>)"
  let ?v = "AirPlayHapTransientPairVerifyProcedure 3 (SRPAuthHandler True)"
  have pv: "pair_verify TRANSIENT_CREDENTIALS 3 = ?v"
    by (simp add: pair_verify_def TRANSIENT_CREDENTIALS_def)
  have pn: "pair_verify NO_CREDENTIALS 3 = NullPairVerifyProcedure"
    by (simp add: pair_verify_def NO_CREDENTIALS_def)
  have upd: "plain_heap(3 := (plain_heap 3)\<lparr>receive_processor := session_decrypt ?s,
                              send_processor := session_encrypt ?s\<rparr>) = ?h"
    by (simp add: plain_heap_def)
  have run: "verify_connection example_env TRANSIENT_CREDENTIALS 3 plain_heap 0 = (Inr ?v, ?h, 2)"
    using verify_connection_true [OF example_transient_verify example_transient_keys, of plain_heap]
    unfolding pv upd .
  have run0: "verify_connection example_env NO_CREDENTIALS 3 plain_heap 0 =
     (Inr NullPairVerifyProcedure, plain_heap, 0)"
    using verify_connection_false [OF example_null_verify, of plain_heap] unfolding pn .
  have t: "fst (verify_credentials example_env ?v 0) = Inr True"
    using example_transient_verify unfolding pv by simp
  have "receive_processor (?h 3) \<noteq> pass_through"
    using verify_connection_hooks
      [where d = example_env and c = TRANSIENT_CREDENTIALS and r = 3 and h = plain_heap
         and w = 0 and v = ?v and h' = ?h and w' = 2, THEN conjunct2, THEN mp, OF run] t
    by blast
  with run run0 show ?thesis by blast
qed

section \<open>Properties of the recorded PIN\<close>

declare nat_str.simps [simp del]

lemma digit_char_digit: "k < 10 \<Longrightarrow> digit_char k \<in> set ''0123456789''"
  unfolding digit_char_def by (rule nth_mem) simp

lemma nat_str_digits: "set (nat_str n) \<subseteq> set ''0123456789''"
proof (induction n rule: nat_str.induct)
  case (1 n)
  show ?case
  proof (cases "n < 10")
    case True
    then show ?thesis
      using digit_char_digit [of n] by (subst nat_str.simps) simp
  next
    case False
    have "n mod 10 < 10" by simp
    then have "digit_char (n mod 10) \<in> set ''0123456789''" by (rule digit_char_digit)
    with False "1.IH" show ?thesis
      by (subst nat_str.simps) simp
  qed
qed

lemma nat_str_nonempty: "nat_str n \<noteq> []"
  by (subst nat_str.simps) simp

lemma nat_str_unsigned: "hd (nat_str n) \<noteq> CHR ''+'' \<and> hd (nat_str n) \<noteq> CHR ''-''"
proof -
  have "hd (nat_str n) \<in> set (nat_str n)"
    using nat_str_nonempty by simp
  with nat_str_digits have "hd (nat_str n) \<in> set ''0123456789''" by blast
  then show ?thesis by auto
qed

lemma zfill_unsigned:
  "s \<noteq> [] \<Longrightarrow> hd s \<noteq> CHR ''+'' \<and> hd s \<noteq> CHR ''-'' \<Longrightarrow>
     zfill width s = replicate (width - length s) CHR ''0'' @ s"
  by (cases s) (simp_all add: zfill_def)

lemma zfill_length: "length (zfill width s) = max width (length s)"
  by (cases s) (auto simp: zfill_def)

lemma zfill_nonempty: "zfill 4 s \<noteq> []"
proof -
  have "length (zfill 4 s) = max 4 (length s)" by (rule zfill_length)
  then show ?thesis by auto
qed

lemma zfill_long: "width \<le> length s \<Longrightarrow> zfill width s = s"
  by (simp add: zfill_def)

lemma zfill_signed:
  "length (c # rest) < width \<Longrightarrow> c = CHR ''+'' \<or> c = CHR ''-'' \<Longrightarrow>
     zfill width (c # rest) = c # replicate (width - length (c # rest)) CHR ''0'' @ rest"
  by (auto simp: zfill_def)

lemma zfill_plain:
  "s = [] \<or> (hd s \<noteq> CHR ''+'' \<and> hd s \<noteq> CHR ''-'') \<Longrightarrow>
     zfill width s = replicate (width - length s) CHR ''0'' @ s"
  by (cases s) (simp_all add: zfill_def)

lemma nat_str_length: "n < 10 ^ Suc k \<Longrightarrow> length (nat_str n) \<le> Suc k"
proof (induction k arbitrary: n)
  case 0
  then show ?case by (subst nat_str.simps) simp
next
  case (Suc k)
  show ?case
  proof (cases "n < 10")
    case True
    then show ?thesis by (subst nat_str.simps) simp
  next
    case False
    from Suc.prems have "n div 10 < 10 ^ Suc k"
      by (simp add: less_mult_imp_div_less mult.commute)
    then have "length (nat_str (n div 10)) \<le> Suc k" by (rule Suc.IH)
    with False show ?thesis by (subst nat_str.simps) simp
  qed
qed

lemma example_str_12345: "int_str 12345 = ''12345''"
  by (simp add: int_str_def nat_str.simps digit_char_def)

lemma example_pin_12345: "zfill 4 (int_str 12345) = ''12345''"
  by (simp add: example_str_12345 zfill_def)

lemma example_pin_minus_5: "zfill 4 (int_str (- 5)) = ''-005''"
  by code_simp

lemma example_str_minus_5: "int_str (- 5) = ''-5''"
  by code_simp

lemma example_pin_ab: "zfill 4 ''ab'' = ''00ab''"
  by code_simp

text \<open>
  Claim C9, as stated, fails: the stored PIN is not always the decimal string filled
  with zeros on the left to four characters. \<^verbatim>\<open>pin(12345)\<close> stores five characters;
  \<^verbatim>\<open>pin(-5)\<close> stores \<^verbatim>\<open>-005\<close>, the zeros after the sign, where filling \<^verbatim>\<open>-5\<close> on the left
  gives \<^verbatim>\<open>00-5\<close>; \<^verbatim>\<open>pin("ab")\<close> stores \<^verbatim>\<open>00ab\<close>, which is no decimal string.
\<close>

theorem pin_fixed_width_counterexample:
  "pin_code (pin (PyInt 12345) example_handler) = Some ''12345'' \<and>
   length ''12345'' \<noteq> (4::nat) \<and>
   pin_code (pin (PyInt (- 5)) example_handler) = Some ''-005'' \<and>
   replicate (4 - length (str (PyInt (- 5)))) CHR ''0'' @ str (PyInt (- 5)) = ''00-5'' \<and>
   pin_code (pin (PyInt (- 5)) example_handler)
     \<noteq> Some (replicate (4 - length (str (PyInt (- 5)))) CHR ''0'' @ str (PyInt (- 5))) \<and>
   pin_code (pin (PyStr ''ab'') example_handler) = Some ''00ab'' \<and>
   \<not> set ''00ab'' \<subseteq> set ''0123456789''"
proof -
  have a: "pin_code (pin (PyInt 12345) example_handler) = Some ''12345''"
    by (simp add: pin_def example_pin_12345)
  have b: "pin_code (pin (PyInt (- 5)) example_handler) = Some ''-005''"
    by (simp add: pin_def example_pin_minus_5)
  have c: "replicate (4 - length (str (PyInt (- 5)))) CHR ''0'' @ str (PyInt (- 5)) = ''00-5''"
    by (simp add: example_str_minus_5 numeral_eq_Suc)
  have d: "pin_code (pin (PyStr ''ab'') example_handler) = Some ''00ab''"
    by (simp add: pin_def example_pin_ab)
  have e: "\<not> set ''00ab'' \<subseteq> set ''0123456789''"
    by simp
  from a b c d e show ?thesis by simp
qed

text \<open>
  Claim C9, amended. For every value \<open>v\<close>, \<^verbatim>\<open>pin(v)\<close> stores exactly \<^verbatim>\<open>str(v).zfill(4)\<close>. It
  changes nothing else of the handler and, taking part in no exchange, leaves the
  collaborators' state as it was; a later call overwrites an earlier one. The stored
  string has four characters or as many as \<^verbatim>\<open>str(v)\<close>, whichever is more: a string of
  four or more characters is stored as it is, a shorter one is filled with zeros, after
  its first character when that is a sign and on the left otherwise. For a non-negative
  integer the stored string is its decimal digits filled with zeros on the left, and has
  exactly four characters when the integer is below 10000.
\<close>

theorem pin_stores_zfill:
  "pin_code (pin v h) = Some (zfill 4 (str v)) \<and>
   service (pin v h) = service h \<and> has_paired (pin v h) = has_paired h \<and>
   do_call d (CallPin v) (h, w) = (pin v h, w) \<and>
   pin v' (pin v h) = pin v' h \<and>
   length (zfill 4 (str v)) = max 4 (length (str v)) \<and>
   (4 \<le> length (str v) \<longrightarrow> zfill 4 (str v) = str v) \<and>
   (length (str v) < 4 \<and> str v = c # rest \<and> (c = CHR ''+'' \<or> c = CHR ''-'') \<longrightarrow>
      zfill 4 (str v) = c # replicate (4 - length (str v)) CHR ''0'' @ rest) \<and>
   (str v = [] \<or> (hd (str v) \<noteq> CHR ''+'' \<and> hd (str v) \<noteq> CHR ''-'') \<longrightarrow>
      zfill 4 (str v) = replicate (4 - length (str v)) CHR ''0'' @ str v) \<and>
   (0 \<le> n \<longrightarrow>
      zfill 4 (str (PyInt n)) =
        replicate (4 - length (nat_str (nat n))) CHR ''0'' @ nat_str (nat n) \<and>
      set (nat_str (nat n)) \<subseteq> set ''0123456789'') \<and>
   (0 \<le> n \<and> n < 10000 \<longrightarrow> length (zfill 4 (str (PyInt n))) = 4)"
proof -
  have fields: "pin_code (pin v h) = Some (zfill 4 (str v)) \<and>
      service (pin v h) = service h \<and> has_paired (pin v h) = has_paired h \<and>
      do_call d (CallPin v) (h, w) = (pin v h, w) \<and> pin v' (pin v h) = pin v' h"
    by (simp add: pin_def)
  have len: "length (zfill 4 (str v)) = max 4 (length (str v))"
    by (rule zfill_length)
  have long: "4 \<le> length (str v) \<longrightarrow> zfill 4 (str v) = str v"
    by (simp add: zfill_long)
  have signed: "length (str v) < 4 \<and> str v = c # rest \<and> (c = CHR ''+'' \<or> c = CHR ''-'') \<longrightarrow>
      zfill 4 (str v) = c # replicate (4 - length (str v)) CHR ''0'' @ rest"
    using zfill_signed [of c rest 4] by auto
  have plain: "str v = [] \<or> (hd (str v) \<noteq> CHR ''+'' \<and> hd (str v) \<noteq> CHR ''-'') \<longrightarrow>
      zfill 4 (str v) = replicate (4 - length (str v)) CHR ''0'' @ str v"
    using zfill_plain [of "str v" 4] by blast
  have digits: "0 \<le> n \<longrightarrow>
      zfill 4 (str (PyInt n)) =
        replicate (4 - length (nat_str (nat n))) CHR ''0'' @ nat_str (nat n) \<and>
      set (nat_str (nat n)) \<subseteq> set ''0123456789''"
    using zfill_unsigned [OF nat_str_nonempty nat_str_unsigned, of 4 "nat n"]
      nat_str_digits [of "nat n"]
    by (simp add: int_str_def)
  have four: "0 \<le> n \<and> n < 10000 \<longrightarrow> length (zfill 4 (str (PyInt n))) = 4"
  proof
    assume n: "0 \<le> n \<and> n < 10000"
    then have "nat n < 10000" by linarith
    then have "nat n < 10 ^ Suc 3" by simp
    then have "length (nat_str (nat n)) \<le> Suc 3" by (rule nat_str_length)
    moreover have "length (zfill 4 (int_str n)) = max 4 (length (int_str n))"
      by (rule zfill_length)
    ultimately show "length (zfill 4 (str (PyInt n))) = 4"
      using n by (simp add: int_str_def)
  qed
  from fields len long signed plain digits four show ?thesis
    by blast
qed

lemma example_nat_str_7: "nat_str 7 = ''7''"
  by code_simp

theorem pin_stores_zfill_witness:
  "(0::int) \<le> 7 \<and> (7::int) < 10000 \<and>
   pin_code (pin (PyInt 7) example_handler) = Some ''0007'' \<and>
   length (zfill 4 (str (PyInt 7))) = 4 \<and>
   pin_code (pin (PyInt 1234) (pin (PyInt 7) example_handler)) = Some ''1234'' \<and>
   zfill 4 (str (PyInt 12345)) = ''12345'' \<and>
   zfill 4 (str (PyInt (- 5))) = ''-005'' \<and>
   zfill 4 (str (PyStr ''ab'')) = ''00ab''"
proof -
  note thm7 = pin_stores_zfill [where n = 7 and v = "PyInt 7" and h = example_handler
      and v' = "PyInt 1234"]
  have z: "(0::int) \<le> 7" by simp
  have z': "(0::int) \<le> 7 \<and> (7::int) < 10000" by simp
  have n: "nat_str (nat 7) = ''7''"
    using example_nat_str_7 by simp
  have r: "replicate (4 - length ''7'') CHR ''0'' @ ''7'' = ''0007''"
    by (simp add: numeral_eq_Suc)
  have s: "zfill 4 (str (PyInt 7)) = ''0007''"
    using thm7 [THEN conjunct2, THEN conjunct2, THEN conjunct2,
        THEN conjunct2, THEN conjunct2, THEN conjunct2, THEN conjunct2, THEN conjunct2,
        THEN conjunct2, THEN conjunct1, THEN mp, OF z, THEN conjunct1]
    unfolding n r .
  have l: "length (zfill 4 (str (PyInt 7))) = 4"
    by (rule thm7 [THEN conjunct2, THEN conjunct2, THEN conjunct2,
        THEN conjunct2, THEN conjunct2, THEN conjunct2, THEN conjunct2, THEN conjunct2,
        THEN conjunct2, THEN conjunct2, THEN mp, OF z'])
  have a: "pin_code (pin (PyInt 7) example_handler) = Some ''0007''"
    using thm7 [THEN conjunct1] unfolding s .
  have o: "pin (PyInt 1234) (pin (PyInt 7) example_handler) = pin (PyInt 1234) example_handler"
    by (rule thm7 [THEN conjunct2, THEN conjunct2, THEN conjunct2, THEN conjunct2,
          THEN conjunct1])
  have b: "pin_code (pin (PyInt 1234) example_handler) = Some ''1234''"
    by (simp add: pin_def example_pin_1234)
  have s5: "str (PyInt 12345) = ''12345''"
    by (simp add: example_str_12345)
  have long: "4 \<le> length (str (PyInt 12345))"
    unfolding s5 by simp
  have c: "zfill 4 (str (PyInt 12345)) = ''12345''"
    using pin_stores_zfill [where v = "PyInt 12345", THEN conjunct2, THEN conjunct2,
        THEN conjunct2, THEN conjunct2, THEN conjunct2, THEN conjunct2, THEN conjunct1,
        THEN mp, OF long]
    unfolding s5 .
  have sg: "length (str (PyInt (- 5))) < 4 \<and> str (PyInt (- 5)) = CHR ''-'' # ''5'' \<and>
      (CHR ''-'' = CHR ''+'' \<or> CHR ''-'' = CHR ''-'')"
    by (simp add: example_str_minus_5)
  have d: "zfill 4 (str (PyInt (- 5))) = ''-005''"
    using pin_stores_zfill [where v = "PyInt (- 5)" and c = "CHR ''-''" and rest = "''5''",
        THEN conjunct2, THEN conjunct2, THEN conjunct2, THEN conjunct2, THEN conjunct2,
        THEN conjunct2, THEN conjunct2, THEN conjunct1, THEN mp, OF sg]
    by (simp add: example_str_minus_5 numeral_eq_Suc)
  have pl: "str (PyStr ''ab'') = [] \<or>
      (hd (str (PyStr ''ab'')) \<noteq> CHR ''+'' \<and> hd (str (PyStr ''ab'')) \<noteq> CHR ''-'')"
    by simp
  have e: "zfill 4 (str (PyStr ''ab'')) = ''00ab''"
    using pin_stores_zfill [where v = "PyStr ''ab''",
        THEN conjunct2, THEN conjunct2, THEN conjunct2, THEN conjunct2, THEN conjunct2,
        THEN conjunct2, THEN conjunct2, THEN conjunct2, THEN conjunct1, THEN mp, OF pl]
    by (simp add: numeral_eq_Suc)
  from z a l b c d e show ?thesis unfolding o by simp
qed

text \<open>
  Claim C8, as stated, fails: on a handler as constructed, before any \<^verbatim>\<open>begin\<close>, the call
  \<^verbatim>\<open>pin(1234)\<close> is recorded, and \<^verbatim>\<open>finish\<close> then completes the pairing.
\<close>

theorem pin_before_begin_counterexample:
  "pin_code (MrpPairingHandler_init example_service) = None \<and>
   pin_code (pin (PyInt 1234) (MrpPairingHandler_init example_service)) = Some ''1234'' \<and>
   has_paired (fst (do_calls example_env [CallPin (PyInt 1234), CallFinish]
                      (MrpPairingHandler_init example_service, 0)))"
proof -
  let ?h = "MrpPairingHandler_init example_service"
  have p: "pin_code (pin (PyInt 1234) ?h) = Some ''1234''"
    by (simp add: pin_def example_pin_1234)
  have "finish example_env (pin (PyInt 1234) ?h) 0 =
     (Inr (), (pin (PyInt 1234) ?h)
        \<lparr>service := (service (pin (PyInt 1234) ?h))
           \<lparr>credentials := Some (credentials_str example_env example_credentials)\<rparr>,
         has_paired := True\<rparr>, 4)"
    by (rule finish_success [where p = "''1234''" and ?w1.0 = 2 and parsed = example_credentials
          and b = True])
      (simp_all add: p example_env_def example_parse_credentials_def example_credentials_def)
  then have "has_paired (fst (do_calls example_env [CallPin (PyInt 1234), CallFinish] (?h, 0)))"
    by simp
  with p show ?thesis
    by (simp add: MrpPairingHandler_init_def)
qed

text \<open>
  Claim C8, amended. The handler has no guarded transitions: \<^verbatim>\<open>pin(value)\<close> is accepted
  and recorded in every state, also on a handler as constructed. \<^verbatim>\<open>finish\<close> requires only
  a non-empty recorded PIN: without one it raises "no pin given", and after \<^verbatim>\<open>pin(value)\<close>
  on any handler it runs the exchange with that PIN and, when both steps return, stores
  the token and sets \<^verbatim>\<open>has_paired\<close>.
\<close>

theorem pin_unguarded_finish_needs_pin:
  "pin_code (pin v h) = Some (zfill 4 (str v)) \<and>
   pin_code (pin v (MrpPairingHandler_init svc)) = Some (zfill 4 (str v)) \<and>
   (pin_code h = None \<or> pin_code h = Some [] \<longrightarrow>
      finish d h w = (Inl (PairingError ''no pin given''), h, w)) \<and>
   (finish_pairing d [] (zfill 4 (str v)) w = (Inr c, w1) \<and>
    parse_credentials d (credentials_str d c) = Inr parsed \<and>
    mrp_verify_credentials d parsed w1 = (Inr b, w2) \<longrightarrow>
      finish d (pin v h) w =
        (Inr (), (pin v h)\<lparr>service := (service (pin v h))
                               \<lparr>credentials := Some (credentials_str d c)\<rparr>,
                           has_paired := True\<rparr>, w2))"
proof (intro conjI impI)
  show "pin_code (pin v h) = Some (zfill 4 (str v))"
    by (simp add: pin_def)
  show "pin_code (pin v (MrpPairingHandler_init svc)) = Some (zfill 4 (str v))"
    by (simp add: pin_def)
next
  assume "pin_code h = None \<or> pin_code h = Some []"
  then show "finish d h w = (Inl (PairingError ''no pin given''), h, w)"
    by (rule finish_no_pin)
next
  assume steps: "finish_pairing d [] (zfill 4 (str v)) w = (Inr c, w1) \<and>
    parse_credentials d (credentials_str d c) = Inr parsed \<and>
    mrp_verify_credentials d parsed w1 = (Inr b, w2)"
  have "pin_code (pin v h) = Some (zfill 4 (str v))"
    by (simp add: pin_def)
  then show "finish d (pin v h) w =
        (Inr (), (pin v h)\<lparr>service := (service (pin v h))
                               \<lparr>credentials := Some (credentials_str d c)\<rparr>,
                           has_paired := True\<rparr>, w2)"
    using steps zfill_nonempty [of "str v"]
    by (intro finish_success [where p = "zfill 4 (str v)" and ?w1.0 = w1 and parsed = parsed
          and b = b]) simp_all
qed

theorem pin_unguarded_finish_needs_pin_witness:
  "finish example_env (MrpPairingHandler_init example_service) 0 =
     (Inl (PairingError ''no pin given''), MrpPairingHandler_init example_service, 0) \<and>
   finish example_env (pin (PyInt 1234) (MrpPairingHandler_init example_service)) 0 =
     (Inr (), (pin (PyInt 1234) (MrpPairingHandler_init example_service))
                \<lparr>service := (service (pin (PyInt 1234) (MrpPairingHandler_init example_service)))
                               \<lparr>credentials := Some ''c0ffee''\<rparr>,
                 has_paired := True\<rparr>, 4)"
proof -
  let ?h = "MrpPairingHandler_init example_service"
  have n: "pin_code ?h = None \<or> pin_code ?h = Some []"
    by (simp add: MrpPairingHandler_init_def)
  have a: "finish example_env ?h 0 = (Inl (PairingError ''no pin given''), ?h, 0)"
    by (rule pin_unguarded_finish_needs_pin
          [where h = ?h and d = example_env and w = 0,
           THEN conjunct2, THEN conjunct2, THEN conjunct1, THEN mp, OF n])
  have tok: "credentials_str example_env example_credentials = ''c0ffee''"
    by (simp add: example_env_def example_credentials_def)
  have steps: "finish_pairing example_env [] (zfill 4 (str (PyInt 1234))) 0
        = (Inr example_credentials, 2) \<and>
     parse_credentials example_env (credentials_str example_env example_credentials)
        = Inr example_credentials \<and>
     mrp_verify_credentials example_env example_credentials 2 = (Inr True, 4)"
    by (simp add: example_pin_1234 example_env_def example_parse_credentials_def
          example_credentials_def)
  have b: "finish example_env (pin (PyInt 1234) ?h) 0 =
     (Inr (), (pin (PyInt 1234) ?h)
                \<lparr>service := (service (pin (PyInt 1234) ?h))\<lparr>credentials := Some ''c0ffee''\<rparr>,
                 has_paired := True\<rparr>, 4)"
    using pin_unguarded_finish_needs_pin
          [where h = ?h and d = example_env and w = 0 and v = "PyInt 1234"
             and c = example_credentials and ?w1.0 = 2 and parsed = example_credentials
             and b = True and ?w2.0 = 4,
           THEN conjunct2, THEN conjunct2, THEN conjunct2, THEN mp, OF steps]
    unfolding tok .
  from a b show ?thesis by (rule conjI)
qed

end
